theory Spec2Isabelle
  imports Main "HOL-Library.Word"
begin

unbundle bit_operations_syntax

section \<open>The netlink socket interface (net/netlink/netlink_sockif.c)\<close>

text \<open>
  The socket operation table of the netlink address family: setup, addref, bind,
  getsockname, getpeername, listen, connect, accept, poll, send, sendto, recvfrom and
  close, and the work-queue callback \<open>netlink_response_available\<close>.

  Conventions of the embedding.
  \<^item> A C function returning \<open>OK\<close> or a negated errno returns \<open>error + 'a\<close> here:
    \<open>Inl e\<close> for \<open>-e\<close>, \<open>Inr\<close> for success.
  \<^item> The functions other than \<open>netlink_setup\<close> take the connection record that
    \<open>psock->s_conn\<close> points to and return it updated. The record is shared by every
    socket handle dup'ed from the first, which is why it carries a reference count.
  \<^item> Pointers that the source asserts to be non-null, and address lengths that it asserts
    to be at least \<open>sizeof(struct sockaddr_nl)\<close>, are arguments of the record types
    below: the type excludes the null pointer and the short address.
  \<^item> The other DEBUGASSERTs (on values) are kept. DEBUGASSERT evaluates its condition
    only in a build with CONFIG_DEBUG_ASSERTIONS; there a failed assertion stops the system,
    which is the outcome \<open>PANIC\<close>. In a build without, the statement is empty and the
    function goes on.
  \<^item> \<open>net_lock\<close>, \<open>sched_lock\<close> and their unlocks serialise the callers; each function
    below is one such critical section, run to its end.
\<close>

subsection \<open>Configuration, errors, constants of the headers\<close>

record config =
  CONFIG_DEBUG_ASSERTIONS :: bool
  CONFIG_NETLINK_ROUTE :: bool

datatype error =
    EPROTONOSUPPORT | ENOMEM | EOPNOTSUPP | EAGAIN | EPIPE | EBUSY
  | PANIC

definition DEBUGASSERT :: "config \<Rightarrow> bool \<Rightarrow> bool" where
  \<comment> \<open>True when execution continues past \<open>DEBUGASSERT(b)\<close>.\<close>
  "DEBUGASSERT cfg b = (if CONFIG_DEBUG_ASSERTIONS cfg then b else True)"

text \<open>
  The headers that give the following names their values are not among the sources. The
  file only compares with them or tests their bits; each stands here with the value of
  the operating system's header.
\<close>

definition PF_NETLINK :: int where
  \<comment> \<open>Modelled from the spec: sys/socket.h is missing; the netlink socket domain.\<close>
  "PF_NETLINK = 16"

definition AF_NETLINK :: "16 word" where
  \<comment> \<open>Modelled from the spec: sys/socket.h is missing; the address family tag of a
     netlink address.\<close>
  "AF_NETLINK = 16"

definition SOCK_DGRAM :: int where
  \<comment> \<open>Modelled from the spec: sys/socket.h is missing; the datagram socket kind.\<close>
  "SOCK_DGRAM = 2"

definition SOCK_RAW :: int where
  \<comment> \<open>Modelled from the spec: sys/socket.h is missing; the raw socket kind.\<close>
  "SOCK_RAW = 3"

definition NETLINK_ROUTE :: int where
  \<comment> \<open>Modelled from the spec: netpacket/netlink.h is missing; the protocol selector of
     the routing backend.\<close>
  "NETLINK_ROUTE = 0"

definition UINT8_MAX :: int where
  \<comment> \<open>stdint.h\<close>
  "UINT8_MAX = 255"

type_synonym pollevent_t = "8 word"

definition POLLIN :: pollevent_t where
  \<comment> \<open>Modelled from the spec: poll.h is missing; the readability event.\<close>
  "POLLIN = 0x01"

definition POLLOUT :: pollevent_t where
  \<comment> \<open>Modelled from the spec: poll.h is missing; the writability event.\<close>
  "POLLOUT = 0x04"

definition MSG_DONTWAIT :: "32 word" where
  \<comment> \<open>Modelled from the spec: sys/socket.h is missing; the per-call no-wait flag.\<close>
  "MSG_DONTWAIT = 0x40"

definition SF_NONBLOCK :: "8 word" where
  \<comment> \<open>Modelled from the spec: nuttx/net/net.h is missing; \<open>_SF_NONBLOCK\<close>, the bit of
     \<open>s_flags\<close> that holds the handle's non-blocking mode.\<close>
  "SF_NONBLOCK = 0x08"

definition SOCKCAP_NONBLOCKING :: "8 word" where
  \<comment> \<open>Modelled from the spec: nuttx/net/net.h is missing; the capability "supports
     non-blocking mode".\<close>
  "SOCKCAP_NONBLOCKING = 0x01"

definition SS_ISNONBLOCK :: "8 word \<Rightarrow> bool" where
  \<comment> \<open>Modelled from the spec: nuttx/net/net.h is missing; the macro
     \<open>_SS_ISNONBLOCK(s)\<close>, true when the handle is in non-blocking mode.\<close>
  "SS_ISNONBLOCK s \<longleftrightarrow> s AND SF_NONBLOCK \<noteq> 0"

definition sizeof_nlmsghdr :: nat where
  \<comment> \<open>Modelled from the spec: netpacket/netlink.h is missing;
     \<open>sizeof(struct nlmsghdr)\<close>, the minimum header size: length, type, flags, sequence
     number, port id.\<close>
  "sizeof_nlmsghdr = 16"

subsection \<open>Data\<close>

type_synonym addr = nat

text \<open>\<open>struct sockaddr_nl\<close>, as the file reads and writes it.\<close>

record sockaddr_nl =
  nl_family :: "16 word"
  nl_pad :: "16 word"
  nl_pid :: "32 word"
  nl_groups :: "32 word"

text \<open>
  A message handed to send: \<open>buf\<close> seen through \<open>struct nlmsghdr *\<close>. The file reads the
  header's length field only; the body belongs to the protocol backend.
\<close>

record nlmsghdr =
  nlmsg_len :: "32 word"
  nlmsg_body :: "8 word list"

text \<open>
  \<open>struct netlink_response_s\<close>: one queued inbound message. \<open>msg_len\<close> is
  \<open>entry->msg.nlmsg_len\<close>, the declared length; \<open>msg_mem i\<close> is the byte at offset \<open>i\<close>
  from \<open>&entry->msg\<close>, which is what \<open>memcpy\<close> reads.
\<close>

record netlink_response_s =
  msg_len :: "32 word"
  msg_mem :: "nat \<Rightarrow> 8 word"

text \<open>
  Modelled from the spec: \<open>struct netlink_conn_s\<close> is declared in netlink/netlink.h, which
  is not among the sources. The fields are those this file uses (\<open>pid\<close>, \<open>groups\<close>,
  \<open>dst_pid\<close>, \<open>dst_groups\<close>, \<open>crefs\<close>, \<open>protocol\<close>, \<open>pollsem\<close>, \<open>pollevent\<close>) and the
  response queue of the spec's data model, a FIFO of pending responses. \<open>crefs\<close> and
  \<open>protocol\<close> are 8 bits wide (the file casts the protocol to \<open>uint8_t\<close> and asserts
  \<open>crefs < 255\<close>). \<open>pollsem\<close> is a pointer to a semaphore; \<open>pollevent\<close> points to the
  \<open>revents\<close> field of a \<open>struct pollfd\<close> and is kept as the address of that pollfd;
  \<open>None\<close> is the null pointer.
\<close>

record netlink_conn_s =
  pid :: "32 word"
  groups :: "32 word"
  dst_pid :: "32 word"
  dst_groups :: "32 word"
  crefs :: "8 word"
  protocol :: "8 word"
  pollsem :: "addr option"
  pollevent :: "addr option"
  resplist :: "netlink_response_s list"

text \<open>\<open>struct socket\<close>: the fields this file reads and writes.\<close>

record socket =
  s_domain :: int
  s_type :: int
  s_flags :: "8 word"
  s_conn :: "netlink_conn_s option"

text \<open>\<open>struct pollfd\<close>, with the semaphore the poll logic put into it.\<close>

record pollfd =
  events :: pollevent_t
  revents :: pollevent_t
  sem :: addr

text \<open>
  What the poll logic and the callback write outside the connection: the pollfd
  structures, by address, and the semaphores posted, in order.
\<close>

record kernel =
  pollfds :: "addr \<Rightarrow> pollfd"
  posted :: "addr list"

subsection \<open>Collaborators that are not in this file\<close>

definition nxsem_post :: "addr \<Rightarrow> kernel \<Rightarrow> kernel" where
  \<comment> \<open>Modelled from the spec: the semaphore primitive is outside the file; the spec has it
     signal the wakeup semaphore. The post is recorded.\<close>
  "nxsem_post s k = k\<lparr>posted := posted k @ [s]\<rparr>"

definition netlink_check_response :: "netlink_conn_s \<Rightarrow> bool" where
  \<comment> \<open>Modelled from the spec: netlink_conn.c is not among the sources. True when a
     response is already queued.\<close>
  "netlink_check_response conn \<longleftrightarrow> resplist conn \<noteq> []"

definition netlink_tryget_response ::
  "netlink_conn_s \<Rightarrow> netlink_response_s option \<times> netlink_conn_s" where
  \<comment> \<open>Modelled from the spec: netlink_conn.c is not among the sources. \<open>try_dequeue\<close> pops
     the head of the queue if there is one and does not block.\<close>
  "netlink_tryget_response conn =
     (case resplist conn of
        [] \<Rightarrow> (None, conn)
      | entry # rest \<Rightarrow> (Some entry, conn\<lparr>resplist := rest\<rparr>))"

text \<open>
  The other collaborators are arguments of the functions that call them:
  \<^item> \<open>alloc\<close>, what \<open>netlink_alloc()\<close> returns (\<open>None\<close> for NULL);
  \<^item> \<open>getpid\<close>, what \<open>getpid()\<close> returns, as converted to the type of \<open>nl_pid\<close>;
  \<^item> \<open>route_sendto\<close>, the routing backend \<open>netlink_route_sendto\<close>;
  \<^item> \<open>get_response\<close>, the blocking \<open>netlink_get_response\<close>;
  \<^item> \<open>nsetup\<close> and \<open>nteardown\<close>, what \<open>netlink_notifier_setup\<close> and
    \<open>netlink_notifier_teardown\<close> return (\<open>Inl\<close> for a negative value).
\<close>

subsection \<open>The socket operations\<close>

definition netlink_setup ::
  "config \<Rightarrow> netlink_conn_s option \<Rightarrow> socket \<Rightarrow> int \<Rightarrow> error + socket" where
  "netlink_setup cfg alloc psock proto =
     (let domain = s_domain psock; type = s_type psock in
      if \<not> DEBUGASSERT cfg (0 \<le> proto \<and> proto \<le> UINT8_MAX) then Inl PANIC
      else if \<not> (CONFIG_NETLINK_ROUTE cfg \<and> proto = NETLINK_ROUTE) then Inl EPROTONOSUPPORT
      else if domain = PF_NETLINK \<and> (type = SOCK_RAW \<or> type = SOCK_DGRAM) then
        (case alloc of
           None \<Rightarrow> Inl ENOMEM
         | Some conn \<Rightarrow>
             Inr (psock\<lparr>s_conn := Some (conn\<lparr>protocol := word_of_int proto, crefs := 1\<rparr>)\<rparr>))
      else Inl EPROTONOSUPPORT)"

definition netlink_sockcaps :: "netlink_conn_s \<Rightarrow> 8 word" where
  "netlink_sockcaps conn = SOCKCAP_NONBLOCKING"

definition netlink_addref :: "config \<Rightarrow> netlink_conn_s \<Rightarrow> error + netlink_conn_s" where
  "netlink_addref cfg conn =
     (if \<not> DEBUGASSERT cfg (crefs conn > 0 \<and> crefs conn < 255) then Inl PANIC
      else Inr (conn\<lparr>crefs := crefs conn + 1\<rparr>))"

definition netlink_bind ::
  "32 word \<Rightarrow> netlink_conn_s \<Rightarrow> sockaddr_nl \<Rightarrow> error + netlink_conn_s" where
  "netlink_bind getpid conn nladdr =
     Inr (conn\<lparr>pid := (if nl_pid nladdr \<noteq> 0 then nl_pid nladdr else getpid),
               groups := nl_groups nladdr\<rparr>)"

definition netlink_getsockname :: "netlink_conn_s \<Rightarrow> error + sockaddr_nl" where
  "netlink_getsockname conn =
     Inr \<lparr>nl_family = AF_NETLINK, nl_pad = 0, nl_pid = pid conn, nl_groups = groups conn\<rparr>"

definition netlink_getpeername :: "netlink_conn_s \<Rightarrow> error + sockaddr_nl" where
  "netlink_getpeername conn =
     Inr \<lparr>nl_family = AF_NETLINK, nl_pad = 0, nl_pid = dst_pid conn,
          nl_groups = dst_groups conn\<rparr>"

definition netlink_listen :: "netlink_conn_s \<Rightarrow> int \<Rightarrow> error + unit" where
  "netlink_listen conn backlog = Inl EOPNOTSUPP"

definition netlink_connect :: "netlink_conn_s \<Rightarrow> sockaddr_nl \<Rightarrow> error + netlink_conn_s" where
  "netlink_connect conn nladdr =
     Inr (conn\<lparr>dst_pid := nl_pid nladdr, dst_groups := nl_groups nladdr\<rparr>)"

definition netlink_accept :: "netlink_conn_s \<Rightarrow> error + unit" where
  "netlink_accept conn = Inl EOPNOTSUPP"

definition netlink_response_available ::
  "kernel \<Rightarrow> netlink_conn_s \<Rightarrow> kernel \<times> netlink_conn_s" where
  "netlink_response_available k conn =
     (let k' =
        (case (pollsem conn, pollevent conn) of
           (Some s, Some e) \<Rightarrow>
             nxsem_post s
               (k\<lparr>pollfds := (pollfds k)
                    (e := (pollfds k e)\<lparr>revents := revents (pollfds k e) OR POLLIN\<rparr>)\<rparr>)
         | _ \<Rightarrow> k)
      in (k', conn\<lparr>pollsem := None, pollevent := None\<rparr>))"

definition netlink_poll ::
  "error + int \<Rightarrow> error + int \<Rightarrow> kernel \<Rightarrow> netlink_conn_s \<Rightarrow> addr \<Rightarrow> bool \<Rightarrow>
     (error + int) \<times> kernel \<times> netlink_conn_s" where
  "netlink_poll nsetup nteardown k conn fds setup =
     (if setup then
        (let revents0 = (if netlink_check_response conn then POLLOUT OR POLLIN else POLLOUT);
             revents1 = revents0 AND events (pollfds k fds)
         in if revents1 \<noteq> 0 then
              (Inr 0,
               nxsem_post (sem (pollfds k fds))
                 (k\<lparr>pollfds := (pollfds k)(fds := (pollfds k fds)\<lparr>revents := revents1\<rparr>)\<rparr>),
               conn)
            else if events (pollfds k fds) AND POLLIN \<noteq> 0 then
              (if pollsem conn \<noteq> None \<or> pollevent conn \<noteq> None then (Inl EBUSY, k, conn)
               else
                 (let conn' = conn\<lparr>pollsem := Some (sem (pollfds k fds)),
                                   pollevent := Some fds\<rparr>
                  in case nsetup of
                       Inl e \<Rightarrow> (Inl e, k, conn'\<lparr>pollsem := None, pollevent := None\<rparr>)
                     | Inr key \<Rightarrow> (Inr key, k, conn')))
            else (Inr 0, k, conn))
      else (nteardown, k, conn\<lparr>pollsem := None, pollevent := None\<rparr>))"

definition netlink_sendto ::
  "(netlink_conn_s \<Rightarrow> nlmsghdr \<Rightarrow> nat \<Rightarrow> 32 word \<Rightarrow> sockaddr_nl \<Rightarrow>
      (error + nat) \<times> netlink_conn_s) \<Rightarrow>
   config \<Rightarrow> netlink_conn_s \<Rightarrow> nlmsghdr \<Rightarrow> nat \<Rightarrow> 32 word \<Rightarrow> sockaddr_nl \<Rightarrow>
     (error + nat) \<times> netlink_conn_s" where
  "netlink_sendto route_sendto cfg conn nlmsg len flags to =
     (if \<not> DEBUGASSERT cfg (unat (nlmsg_len nlmsg) \<ge> sizeof_nlmsghdr) then (Inl PANIC, conn)
      else if CONFIG_NETLINK_ROUTE cfg \<and> uint (protocol conn) = NETLINK_ROUTE then
        route_sendto conn nlmsg len flags to
      else (Inl EOPNOTSUPP, conn))"

definition netlink_send ::
  "(netlink_conn_s \<Rightarrow> nlmsghdr \<Rightarrow> nat \<Rightarrow> 32 word \<Rightarrow> sockaddr_nl \<Rightarrow>
      (error + nat) \<times> netlink_conn_s) \<Rightarrow>
   config \<Rightarrow> netlink_conn_s \<Rightarrow> nlmsghdr \<Rightarrow> nat \<Rightarrow> 32 word \<Rightarrow>
     (error + nat) \<times> netlink_conn_s" where
  "netlink_send route_sendto cfg conn nlmsg len flags =
     (let nladdr = \<lparr>nl_family = AF_NETLINK, nl_pad = 0, nl_pid = dst_pid conn,
                    nl_groups = dst_groups conn\<rparr>
      in netlink_sendto route_sendto cfg conn nlmsg len flags nladdr)"

text \<open>
  \<open>netlink_recvfrom\<close>. The caller's buffer \<open>buf\<close> with its length \<open>len\<close> is the list
  \<open>buf\<close>, \<open>len = length buf\<close>. \<open>from\<close> says whether the caller passed an address to fill.
  A success returns the count, the buffer after \<open>memcpy\<close> and the address filled in, if
  any; the entry taken from the queue is freed, so it is in no part of the result.
\<close>

definition memcpy :: "8 word list \<Rightarrow> (nat \<Rightarrow> 8 word) \<Rightarrow> nat \<Rightarrow> 8 word list" where
  "memcpy buf src n = map src [0..<n] @ drop n buf"

definition netlink_recvfrom ::
  "(netlink_conn_s \<Rightarrow> netlink_response_s option \<times> netlink_conn_s) \<Rightarrow>
   config \<Rightarrow> 8 word \<Rightarrow> netlink_conn_s \<Rightarrow> 8 word list \<Rightarrow> 32 word \<Rightarrow> bool \<Rightarrow>
     (error + nat \<times> 8 word list \<times> sockaddr_nl option) \<times> netlink_conn_s" where
  "netlink_recvfrom get_response cfg sflags conn buf flags from =
     (let deliver = (\<lambda>entry conn'.
            let len = (if length buf > unat (msg_len entry) then unat (msg_len entry)
                       else length buf);
                buf' = memcpy buf (msg_mem entry) len;
                from' = (if from
                         then (case netlink_getpeername conn' of
                                 Inr a \<Rightarrow> Some a | Inl e \<Rightarrow> None)
                         else None)
            in (Inr (len, buf', from'), conn'))
      in case netlink_tryget_response conn of
           (Some entry, conn') \<Rightarrow> deliver entry conn'
         | (None, conn') \<Rightarrow>
             if SS_ISNONBLOCK sflags \<or> flags AND MSG_DONTWAIT \<noteq> 0 then (Inl EAGAIN, conn')
             else
               (case get_response conn' of
                  (Some entry, conn'') \<Rightarrow> deliver entry conn''
                | (None, conn'') \<Rightarrow>
                    if \<not> DEBUGASSERT cfg False then (Inl PANIC, conn'')
                    else (Inl EPIPE, conn'')))"

text \<open>
  \<open>netlink_close\<close> always returns \<open>OK\<close>. \<open>Freed c\<close>: the last reference went, and \<open>c\<close> is
  the record as the function passes it to \<open>netlink_free\<close>. \<open>Kept c\<close>: other handles
  remain, and \<open>c\<close> is the record they go on sharing.
\<close>

datatype closed = Freed netlink_conn_s | Kept netlink_conn_s

definition netlink_close :: "netlink_conn_s \<Rightarrow> error + closed" where
  "netlink_close conn =
     (if crefs conn \<le> 1 then Inr (Freed (conn\<lparr>crefs := 0\<rparr>))
      else Inr (Kept (conn\<lparr>crefs := crefs conn - 1\<rparr>)))"

subsection \<open>Socket handles sharing one connection\<close>

text \<open>
  The socket layer above this file calls \<open>netlink_addref\<close> when a socket is dup'ed and
  \<open>netlink_close\<close> when one of the handles is closed. \<open>refsys\<close> is what a sequence of
  such calls acts on: the number of handles that are open, the connection record they
  share (\<open>None\<close> once \<open>netlink_free\<close> has taken it) and the number of times the record has
  been handed to \<open>netlink_free\<close>. A call needs an open handle to be made through
  (\<open>No_Handle\<close> otherwise); \<open>Dangling\<close> is a call through an open handle whose record has
  been freed already; \<open>Call_Failed\<close> is a failure of the function called.
\<close>

datatype refcall = AddRef | Close

datatype run_error = Call_Failed error | No_Handle | Dangling

record refsys =
  open_handles :: nat
  shared :: "netlink_conn_s option"
  frees :: nat

definition ref_call :: "config \<Rightarrow> refsys \<Rightarrow> refcall \<Rightarrow> run_error + refsys" where
  "ref_call cfg s call =
     (if open_handles s = 0 then Inl No_Handle
      else case shared s of
        None \<Rightarrow> Inl Dangling
      | Some conn \<Rightarrow>
          (case call of
             AddRef \<Rightarrow>
               (case netlink_addref cfg conn of
                  Inl e \<Rightarrow> Inl (Call_Failed e)
                | Inr conn' \<Rightarrow>
                    Inr (s\<lparr>open_handles := open_handles s + 1, shared := Some conn'\<rparr>))
           | Close \<Rightarrow>
               (case netlink_close conn of
                  Inl e \<Rightarrow> Inl (Call_Failed e)
                | Inr (Freed conn') \<Rightarrow>
                    Inr (s\<lparr>open_handles := open_handles s - 1, shared := None,
                           frees := frees s + 1\<rparr>)
                | Inr (Kept conn') \<Rightarrow>
                    Inr (s\<lparr>open_handles := open_handles s - 1, shared := Some conn'\<rparr>))))"

fun refs_run :: "config \<Rightarrow> refsys \<Rightarrow> refcall list \<Rightarrow> run_error + refsys" where
  "refs_run cfg s [] = Inr s"
| "refs_run cfg s (call # calls) =
     (case ref_call cfg s call of
        Inl e \<Rightarrow> Inl e
      | Inr s' \<Rightarrow> refs_run cfg s' calls)"

text \<open>
  The condition that \<open>netlink_addref\<close> asserts, read off the handles: every add-reference
  of the sequence is made with fewer than 255 handles open (\<open>h\<close> are open at its start).
\<close>

fun addref_in_range :: "nat \<Rightarrow> refcall list \<Rightarrow> bool" where
  "addref_in_range h [] = True"
| "addref_in_range h (AddRef # calls) = (h < 255 \<and> addref_in_range (h + 1) calls)"
| "addref_in_range h (Close # calls) = addref_in_range (h - 1) calls"

text \<open>
  The reference-count discipline in the spec's words, on the number of open handles
  alone: an add-reference adds a handle and a close takes one away; a call with no
  handle open cannot be made; an add-reference that finds 255 handles open breaks the
  bound on the count, which a build with debug assertions answers by stopping.
  \<open>handle_state c0 h\<close> is the state the discipline asks for with \<open>h\<close> handles open on
  the connection set up as \<open>c0\<close>: the record is there with count \<open>h\<close> and has never
  been freed while \<open>h\<close> is positive, and is gone, freed once, when \<open>h\<close> is 0.
\<close>

fun handles_after :: "nat \<Rightarrow> refcall list \<Rightarrow> run_error + nat" where
  "handles_after h [] = Inr h"
| "handles_after h (AddRef # calls) =
     (if h = 0 then Inl No_Handle
      else if 255 \<le> h then Inl (Call_Failed PANIC)
      else handles_after (h + 1) calls)"
| "handles_after h (Close # calls) =
     (if h = 0 then Inl No_Handle else handles_after (h - 1) calls)"

definition handle_state :: "netlink_conn_s \<Rightarrow> nat \<Rightarrow> refsys" where
  "handle_state c0 h =
     \<lparr>open_handles = h,
      shared = (if h = 0 then None else Some (c0\<lparr>crefs := of_nat h\<rparr>)),
      frees = (if h = 0 then 1 else 0)\<rparr>"

subsection \<open>Concrete inputs\<close>

definition zeroed_conn :: netlink_conn_s where
  "zeroed_conn =
     \<lparr>pid = 0, groups = 0, dst_pid = 0, dst_groups = 0, crefs = 0, protocol = 0,
      pollsem = None, pollevent = None, resplist = []\<rparr>"

definition dgram_socket :: socket where
  "dgram_socket = \<lparr>s_domain = PF_NETLINK, s_type = SOCK_DGRAM, s_flags = 0, s_conn = None\<rparr>"

definition release_build :: config where
  "release_build = \<lparr>CONFIG_DEBUG_ASSERTIONS = False, CONFIG_NETLINK_ROUTE = True\<rparr>"

definition debug_build :: config where
  "debug_build = \<lparr>CONFIG_DEBUG_ASSERTIONS = True, CONFIG_NETLINK_ROUTE = True\<rparr>"

definition polling_kernel :: "pollevent_t \<Rightarrow> kernel" where
  \<comment> \<open>every pollfd asks for the events \<open>ev\<close>, has reported nothing yet, and the pollfd at
     address \<open>a\<close> holds the semaphore at address \<open>a + 100\<close>; nothing has been posted\<close>
  "polling_kernel ev =
     \<lparr>pollfds = (\<lambda>a. \<lparr>events = ev, revents = 0, sem = a + 100\<rparr>), posted = []\<rparr>"

definition registered_conn :: netlink_conn_s where
  \<comment> \<open>one handle, an empty queue, and the poll registration of the pollfd at address 3\<close>
  "registered_conn = zeroed_conn\<lparr>crefs := 1, pollsem := Some 103, pollevent := Some 3\<rparr>"

definition counting_response :: "32 word \<Rightarrow> netlink_response_s" where
  \<comment> \<open>a response of declared length \<open>n\<close> whose byte at offset \<open>i\<close> is \<open>i\<close>\<close>
  "counting_response n = \<lparr>msg_len = n, msg_mem = (\<lambda>i. of_nat i)\<rparr>"

definition echo_backend ::
  "netlink_conn_s \<Rightarrow> nlmsghdr \<Rightarrow> nat \<Rightarrow> 32 word \<Rightarrow> sockaddr_nl \<Rightarrow>
     (error + nat) \<times> netlink_conn_s" where
  \<comment> \<open>a routing backend for the examples: it reports \<open>len\<close> bytes sent and makes the
     destination's port id the connection's\<close>
  "echo_backend conn nlmsg len flags to = (Inr len, conn\<lparr>pid := nl_pid to\<rparr>)"

section \<open>Properties\<close>

subsection \<open>Reference counting\<close>

lemma crefs_of_nat_pos: "0 < h \<Longrightarrow> h \<le> 255 \<Longrightarrow> 0 < (of_nat h :: 8 word)"
  by (simp add: word_less_nat_alt unat_of_nat)

lemma crefs_of_nat_less: "h \<le> 255 \<Longrightarrow> (of_nat h :: 8 word) < 255 \<longleftrightarrow> h < 255"
  by (simp add: word_less_nat_alt unat_of_nat)

lemma crefs_of_nat_le_one: "h \<le> 255 \<Longrightarrow> (of_nat h :: 8 word) \<le> 1 \<longleftrightarrow> h \<le> 1"
  by (simp add: word_le_nat_alt unat_of_nat)

lemma ref_call_handle_state_addref:
  assumes "0 < h" and "h \<le> 255"
  shows "ref_call cfg (handle_state c0 h) AddRef =
           (if CONFIG_DEBUG_ASSERTIONS cfg \<and> 255 \<le> h then Inl (Call_Failed PANIC)
            else Inr ((handle_state c0 h)\<lparr>open_handles := h + 1,
                        shared := Some (c0\<lparr>crefs := of_nat h + 1\<rparr>)\<rparr>))"
  using assms crefs_of_nat_pos [OF assms] crefs_of_nat_less [OF assms(2)]
  by (auto simp: ref_call_def handle_state_def netlink_addref_def DEBUGASSERT_def)

lemma ref_call_handle_state_addref_ok:
  assumes "0 < h" and "h < 255"
  shows "ref_call cfg (handle_state c0 h) AddRef = Inr (handle_state c0 (h + 1))"
proof -
  from assms have "h \<le> 255" by simp
  with assms show ?thesis
    by (simp add: ref_call_handle_state_addref) (simp add: handle_state_def)
qed

lemma ref_call_handle_state_close:
  assumes "0 < h" and "h \<le> 255"
  shows "ref_call cfg (handle_state c0 h) Close = Inr (handle_state c0 (h - 1))"
proof (cases "h = 1")
  case True
  then show ?thesis
    by (simp add: ref_call_def handle_state_def netlink_close_def)
next
  case False
  with assms have "1 < h" by simp
  then have "\<not> (of_nat h :: 8 word) \<le> 1"
    using assms(2) by (simp add: crefs_of_nat_le_one)
  moreover have "(of_nat h :: 8 word) - 1 = of_nat (h - 1)"
    using assms(1) by simp
  ultimately show ?thesis using \<open>1 < h\<close>
    by (simp add: ref_call_def handle_state_def netlink_close_def)
qed

lemma ref_call_no_handle: "ref_call cfg (handle_state c0 0) call = Inl No_Handle"
  by (simp add: ref_call_def handle_state_def)

lemma refs_run_handle_state:
  "h \<le> 255 \<Longrightarrow> CONFIG_DEBUG_ASSERTIONS cfg \<or> addref_in_range h calls \<Longrightarrow>
   refs_run cfg (handle_state c0 h) calls =
     (case handles_after h calls of Inl e \<Rightarrow> Inl e | Inr h' \<Rightarrow> Inr (handle_state c0 h'))"
proof (induction calls arbitrary: h)
  case Nil
  then show ?case by simp
next
  case (Cons call calls)
  show ?case
  proof (cases "h = 0")
    case True
    then show ?thesis by (cases call) (simp_all add: ref_call_no_handle)
  next
    case False
    then have pos: "0 < h" by simp
    show ?thesis
    proof (cases call)
      case AddRef
      show ?thesis
      proof (cases "255 \<le> h")
        case True
        with Cons.prems(2) have "CONFIG_DEBUG_ASSERTIONS cfg" by (auto simp: AddRef)
        with True pos Cons.prems(1) show ?thesis
          by (simp add: AddRef ref_call_handle_state_addref)
      next
        case False
        then have lt: "h < 255" by simp
        from Cons.prems(2)
        have "CONFIG_DEBUG_ASSERTIONS cfg \<or> addref_in_range (h + 1) calls"
          by (auto simp: AddRef)
        moreover from lt have "h + 1 \<le> 255" by simp
        ultimately have "refs_run cfg (handle_state c0 (h + 1)) calls =
          (case handles_after (h + 1) calls of Inl e \<Rightarrow> Inl e
           | Inr h' \<Rightarrow> Inr (handle_state c0 h'))"
          using Cons.IH by blast
        with pos lt show ?thesis
          by (simp add: AddRef ref_call_handle_state_addref_ok)
      qed
    next
      case Close
      from Cons.prems(2)
      have "CONFIG_DEBUG_ASSERTIONS cfg \<or> addref_in_range (h - 1) calls"
        by (auto simp: Close)
      moreover from Cons.prems(1) have "h - 1 \<le> 255" by simp
      ultimately have "refs_run cfg (handle_state c0 (h - 1)) calls =
          (case handles_after (h - 1) calls of Inl e \<Rightarrow> Inl e
           | Inr h' \<Rightarrow> Inr (handle_state c0 h'))"
        using Cons.IH by blast
      with pos Cons.prems(1) show ?thesis
        by (simp add: Close ref_call_handle_state_close)
    qed
  qed
qed

lemma handle_state_one:
  "crefs c0 = 1 \<Longrightarrow>
   handle_state c0 1 = \<lparr>open_handles = 1, shared = Some c0, frees = 0\<rparr>"
  by (cases c0) (simp add: handle_state_def)

lemma refs_run_addrefs_release:
  "\<not> CONFIG_DEBUG_ASSERTIONS cfg \<Longrightarrow> 0 < open_handles s \<Longrightarrow> shared s = Some c \<Longrightarrow>
   refs_run cfg s (replicate n AddRef @ rest) =
     refs_run cfg (s\<lparr>open_handles := open_handles s + n,
                     shared := Some (c\<lparr>crefs := crefs c + of_nat n\<rparr>)\<rparr>) rest"
proof (induction n arbitrary: s c)
  case 0
  from "0.prems"(3) have "s\<lparr>shared := Some c\<rparr> = s" by (cases s) simp
  then show ?case by simp
next
  case (Suc n)
  let ?c' = "c\<lparr>crefs := crefs c + 1\<rparr>"
  let ?s' = "s\<lparr>open_handles := open_handles s + 1, shared := Some ?c'\<rparr>"
  from Suc.prems have step: "ref_call cfg s AddRef = Inr ?s'"
    by (simp add: ref_call_def netlink_addref_def DEBUGASSERT_def)
  have "refs_run cfg ?s' (replicate n AddRef @ rest) =
     refs_run cfg (?s'\<lparr>open_handles := open_handles ?s' + n,
                     shared := Some (?c'\<lparr>crefs := crefs ?c' + of_nat n\<rparr>)\<rparr>) rest"
    using Suc.prems(1) by (intro Suc.IH) simp_all
  with step show ?case by (simp add: add.assoc)
qed

lemma netlink_setup_Inr:
  assumes "netlink_setup cfg alloc psock proto = Inr psock'"
  shows "\<exists>conn. alloc = Some conn \<and>
           psock' = psock\<lparr>s_conn := Some (conn\<lparr>protocol := word_of_int proto, crefs := 1\<rparr>)\<rparr> \<and>
           CONFIG_NETLINK_ROUTE cfg \<and> proto = NETLINK_ROUTE \<and>
           s_domain psock = PF_NETLINK \<and>
           (s_type psock = SOCK_RAW \<or> s_type psock = SOCK_DGRAM)"
  using assms by (auto simp: netlink_setup_def Let_def split: if_splits option.splits)

text \<open>
  Claim C1, as amended. A connection starts with reference count 1 at setup. Take any
  sequence of add-reference and close calls that keeps to the bound \<open>netlink_addref\<close>
  asserts (fewer than 255 handles open at each add-reference), or any sequence at all
  in a build with debug assertions, where an add-reference beyond the bound stops at
  the assertion. The run then does exactly what the handle count says: it fails only
  where a call is made with no handle open, or at that assertion; otherwise it ends
  with the count of the record equal to the number of open handles and the record
  never handed to \<open>netlink_free\<close> while that number is positive, and with the record
  handed to \<open>netlink_free\<close> exactly once, by the close that took the count from 1 to
  0, when no handle is left. A close with a count above 1 only decrements the count,
  and a close that frees found a count of at most 1 and left 0. The claim as stated
  ("for every sequence") fails in a build without assertions: the count is 8 bits
  wide, so 255 add-references wrap it to 0 and the next close frees the record with
  255 handles still open, as the last theorem of this subsection shows.
\<close>

theorem refcount_discipline:
  assumes attached: "netlink_setup cfg alloc psock proto = Inr psock'"
    and bound: "CONFIG_DEBUG_ASSERTIONS cfg \<or> addref_in_range 1 calls"
  shows "\<exists>c0. s_conn psock' = Some c0 \<and> crefs c0 = 1 \<and>
           refs_run cfg \<lparr>open_handles = 1, shared = Some c0, frees = 0\<rparr> calls =
             (case handles_after 1 calls of
                Inl e \<Rightarrow> Inl e
              | Inr h \<Rightarrow>
                  Inr \<lparr>open_handles = h,
                       shared = (if h = 0 then None else Some (c0\<lparr>crefs := of_nat h\<rparr>)),
                       frees = (if h = 0 then 1 else 0)\<rparr>) \<and>
           (\<forall>c. 1 < crefs c \<longrightarrow> netlink_close c = Inr (Kept (c\<lparr>crefs := crefs c - 1\<rparr>))) \<and>
           (\<forall>c c'. netlink_close c = Inr (Freed c') \<longrightarrow> crefs c \<le> 1 \<and> crefs c' = 0)"
proof -
  from attached obtain conn where
    unfolded: "psock' = psock\<lparr>s_conn := Some (conn\<lparr>protocol := word_of_int proto, crefs := 1\<rparr>)\<rparr>"
    using netlink_setup_Inr by blast
  define c0 where "c0 = conn\<lparr>protocol := word_of_int proto, crefs := 1\<rparr>"
  have c0: "s_conn psock' = Some c0" "crefs c0 = 1" by (simp_all add: unfolded c0_def)
  have "refs_run cfg (handle_state c0 1) calls =
     (case handles_after 1 calls of Inl e \<Rightarrow> Inl e | Inr h' \<Rightarrow> Inr (handle_state c0 h'))"
    using bound by (intro refs_run_handle_state) simp_all
  then have "refs_run cfg \<lparr>open_handles = 1, shared = Some c0, frees = 0\<rparr> calls =
     (case handles_after 1 calls of Inl e \<Rightarrow> Inl e | Inr h' \<Rightarrow> Inr (handle_state c0 h'))"
    by (simp only: handle_state_one [OF c0(2)])
  then have run: "refs_run cfg \<lparr>open_handles = 1, shared = Some c0, frees = 0\<rparr> calls =
             (case handles_after 1 calls of
                Inl e \<Rightarrow> Inl e
              | Inr h \<Rightarrow>
                  Inr \<lparr>open_handles = h,
                       shared = (if h = 0 then None else Some (c0\<lparr>crefs := of_nat h\<rparr>)),
                       frees = (if h = 0 then 1 else 0)\<rparr>)"
    by (simp only: handle_state_def)
  have kept: "\<forall>c. 1 < crefs c \<longrightarrow> netlink_close c = Inr (Kept (c\<lparr>crefs := crefs c - 1\<rparr>))"
    by (auto simp: netlink_close_def)
  have freed: "\<forall>c c'. netlink_close c = Inr (Freed c') \<longrightarrow> crefs c \<le> 1 \<and> crefs c' = 0"
    by (auto simp: netlink_close_def split: if_splits)
  from c0 run kept freed show ?thesis by blast
qed

theorem refcount_discipline_witness:
  "netlink_setup release_build (Some zeroed_conn) dgram_socket NETLINK_ROUTE =
     Inr (dgram_socket\<lparr>s_conn := Some (zeroed_conn\<lparr>crefs := 1\<rparr>)\<rparr>) \<and>
   addref_in_range 1 [AddRef, AddRef, Close, AddRef, Close] \<and>
   handles_after 1 [AddRef, AddRef, Close, AddRef, Close] = Inr 2 \<and>
   refs_run release_build
       \<lparr>open_handles = 1, shared = Some (zeroed_conn\<lparr>crefs := 1\<rparr>), frees = 0\<rparr>
       [AddRef, AddRef, Close, AddRef, Close] =
     Inr \<lparr>open_handles = 2, shared = Some (zeroed_conn\<lparr>crefs := 2\<rparr>), frees = 0\<rparr> \<and>
   addref_in_range 1 [AddRef, Close, Close] \<and>
   handles_after 1 [AddRef, Close, Close] = Inr 0 \<and>
   refs_run release_build
       \<lparr>open_handles = 1, shared = Some (zeroed_conn\<lparr>crefs := 1\<rparr>), frees = 0\<rparr>
       [AddRef, Close, Close] =
     Inr \<lparr>open_handles = 0, shared = None, frees = 1\<rparr> \<and>
   handles_after 1 [Close, AddRef] = Inl No_Handle \<and>
   refs_run release_build
       \<lparr>open_handles = 1, shared = Some (zeroed_conn\<lparr>crefs := 1\<rparr>), frees = 0\<rparr>
       [Close, AddRef] = Inl No_Handle \<and>
   netlink_setup debug_build (Some zeroed_conn) dgram_socket NETLINK_ROUTE =
     Inr (dgram_socket\<lparr>s_conn := Some (zeroed_conn\<lparr>crefs := 1\<rparr>)\<rparr>) \<and>
   CONFIG_DEBUG_ASSERTIONS debug_build \<and>
   refs_run debug_build
       \<lparr>open_handles = 1, shared = Some (zeroed_conn\<lparr>crefs := 1\<rparr>), frees = 0\<rparr>
       [AddRef, AddRef, Close] =
     Inr \<lparr>open_handles = 2, shared = Some (zeroed_conn\<lparr>crefs := 2\<rparr>), frees = 0\<rparr>"
proof -
  have a: "netlink_setup release_build (Some zeroed_conn) dgram_socket NETLINK_ROUTE =
     Inr (dgram_socket\<lparr>s_conn := Some (zeroed_conn\<lparr>crefs := 1\<rparr>)\<rparr>)"
    by (simp add: netlink_setup_def release_build_def zeroed_conn_def dgram_socket_def
        DEBUGASSERT_def NETLINK_ROUTE_def Let_def)
  have b1: "addref_in_range 1 [AddRef, AddRef, Close, AddRef, Close]"
    and b2: "addref_in_range 1 [AddRef, Close, Close]"
    and b3: "addref_in_range 1 [Close, AddRef]"
    by simp_all
  have h1: "handles_after 1 [AddRef, AddRef, Close, AddRef, Close] = Inr 2"
    and h2: "handles_after 1 [AddRef, Close, Close] = Inr 0"
    and h3: "handles_after 1 [Close, AddRef] = Inl No_Handle"
    by simp_all
  from refcount_discipline [OF a disjI2 [OF b1]]
  have r1: "refs_run release_build
       \<lparr>open_handles = 1, shared = Some (zeroed_conn\<lparr>crefs := 1\<rparr>), frees = 0\<rparr>
       [AddRef, AddRef, Close, AddRef, Close] =
     Inr \<lparr>open_handles = 2, shared = Some (zeroed_conn\<lparr>crefs := 2\<rparr>), frees = 0\<rparr>"
    by (simp add: h1)
  from refcount_discipline [OF a disjI2 [OF b2]]
  have r2: "refs_run release_build
       \<lparr>open_handles = 1, shared = Some (zeroed_conn\<lparr>crefs := 1\<rparr>), frees = 0\<rparr>
       [AddRef, Close, Close] =
     Inr \<lparr>open_handles = 0, shared = None, frees = 1\<rparr>"
    by (simp add: h2)
  from refcount_discipline [OF a disjI2 [OF b3]]
  have r3: "refs_run release_build
       \<lparr>open_handles = 1, shared = Some (zeroed_conn\<lparr>crefs := 1\<rparr>), frees = 0\<rparr>
       [Close, AddRef] = Inl No_Handle"
    by (simp add: h3)
  have a': "netlink_setup debug_build (Some zeroed_conn) dgram_socket NETLINK_ROUTE =
     Inr (dgram_socket\<lparr>s_conn := Some (zeroed_conn\<lparr>crefs := 1\<rparr>)\<rparr>)"
    by (simp add: netlink_setup_def debug_build_def zeroed_conn_def dgram_socket_def
        DEBUGASSERT_def NETLINK_ROUTE_def UINT8_MAX_def Let_def)
  have d: "CONFIG_DEBUG_ASSERTIONS debug_build" by (simp add: debug_build_def)
  have h4: "handles_after 1 [AddRef, AddRef, Close] = Inr 2" by simp
  from refcount_discipline [OF a' disjI1 [OF d], of "[AddRef, AddRef, Close]"]
  have r4: "refs_run debug_build
       \<lparr>open_handles = 1, shared = Some (zeroed_conn\<lparr>crefs := 1\<rparr>), frees = 0\<rparr>
       [AddRef, AddRef, Close] =
     Inr \<lparr>open_handles = 2, shared = Some (zeroed_conn\<lparr>crefs := 2\<rparr>), frees = 0\<rparr>"
    by (simp add: h4)
  from a b1 b2 h1 h2 h3 r1 r2 r3 a' d r4 show ?thesis by blast
qed

theorem refcount_wrap_counterexample:
  "netlink_setup release_build (Some zeroed_conn) dgram_socket NETLINK_ROUTE =
     Inr (dgram_socket\<lparr>s_conn := Some (zeroed_conn\<lparr>crefs := 1\<rparr>)\<rparr>) \<and>
   refs_run release_build
       \<lparr>open_handles = 1, shared = Some (zeroed_conn\<lparr>crefs := 1\<rparr>), frees = 0\<rparr>
       (replicate 255 AddRef) =
     Inr \<lparr>open_handles = 256, shared = Some (zeroed_conn\<lparr>crefs := 0\<rparr>), frees = 0\<rparr> \<and>
   refs_run release_build
       \<lparr>open_handles = 1, shared = Some (zeroed_conn\<lparr>crefs := 1\<rparr>), frees = 0\<rparr>
       (replicate 255 AddRef @ [Close]) =
     Inr \<lparr>open_handles = 255, shared = None, frees = 1\<rparr> \<and>
   refs_run release_build
       \<lparr>open_handles = 1, shared = Some (zeroed_conn\<lparr>crefs := 1\<rparr>), frees = 0\<rparr>
       (replicate 255 AddRef @ [Close, Close]) = Inl Dangling"
proof -
  have a: "netlink_setup release_build (Some zeroed_conn) dgram_socket NETLINK_ROUTE =
     Inr (dgram_socket\<lparr>s_conn := Some (zeroed_conn\<lparr>crefs := 1\<rparr>)\<rparr>)"
    by (simp add: netlink_setup_def release_build_def zeroed_conn_def dgram_socket_def
        DEBUGASSERT_def NETLINK_ROUTE_def Let_def)
  have r: "\<not> CONFIG_DEBUG_ASSERTIONS release_build" by (simp add: release_build_def)
  have zero: "(1::8 word) + of_nat 255 = 0"
    by (simp add: word_eq_iff_unsigned [where ?'a = nat] unsigned_numeral)
  have wrap: "refs_run release_build
       \<lparr>open_handles = 1, shared = Some (zeroed_conn\<lparr>crefs := 1\<rparr>), frees = 0\<rparr>
       (replicate 255 AddRef @ rest) =
     refs_run release_build
       \<lparr>open_handles = 256, shared = Some (zeroed_conn\<lparr>crefs := 0\<rparr>), frees = 0\<rparr> rest"
    for rest
    using refs_run_addrefs_release [OF r, of
        "\<lparr>open_handles = 1, shared = Some (zeroed_conn\<lparr>crefs := 1\<rparr>), frees = 0\<rparr>"
        "zeroed_conn\<lparr>crefs := 1\<rparr>" 255 rest] zero
    by (simp del: of_nat_numeral)
  have b0: "refs_run release_build
       \<lparr>open_handles = 1, shared = Some (zeroed_conn\<lparr>crefs := 1\<rparr>), frees = 0\<rparr>
       (replicate 255 AddRef) =
     Inr \<lparr>open_handles = 256, shared = Some (zeroed_conn\<lparr>crefs := 0\<rparr>), frees = 0\<rparr>"
    using wrap [of "[]"] by simp
  have b: "refs_run release_build
       \<lparr>open_handles = 256, shared = Some (zeroed_conn\<lparr>crefs := 0\<rparr>), frees = 0\<rparr> [Close] =
     Inr \<lparr>open_handles = 255, shared = None, frees = 1\<rparr>"
    by (simp add: ref_call_def netlink_close_def)
  have c: "refs_run release_build
       \<lparr>open_handles = 256, shared = Some (zeroed_conn\<lparr>crefs := 0\<rparr>), frees = 0\<rparr>
       [Close, Close] = Inl Dangling"
    by (simp add: ref_call_def netlink_close_def)
  from a b0 b c show ?thesis by (simp only: wrap simp_thms)
qed

subsection \<open>Close and the poll registration\<close>

text \<open>
  Claim C2. The claim asks that a close releasing the last reference with a poll
  registration outstanding leave \<open>pollsem\<close> and \<open>pollevent\<close> null before the record
  is freed, so that a later \<open>netlink_response_available\<close> on it does nothing. The code
  does otherwise: on \<open>registered_conn\<close> (one reference, registration of the pollfd at
  address 3 with the semaphore at 103), \<open>netlink_close\<close> writes \<open>crefs = 0\<close> and hands the
  record to \<open>netlink_free\<close> with both pointers as they were, and the callback run on the
  record in that state writes POLLIN through \<open>pollevent\<close> and posts \<open>pollsem\<close>. The
  teardown branch of \<open>netlink_poll\<close> is the path that clears both pointers.
\<close>

theorem close_last_reference_keeps_registration:
  "netlink_close registered_conn = Inr (Freed (registered_conn\<lparr>crefs := 0\<rparr>)) \<and>
   pollsem (registered_conn\<lparr>crefs := 0\<rparr>) = Some 103 \<and>
   pollevent (registered_conn\<lparr>crefs := 0\<rparr>) = Some 3 \<and>
   posted (fst (netlink_response_available (polling_kernel POLLIN)
                  (registered_conn\<lparr>crefs := 0\<rparr>))) = [103] \<and>
   revents (pollfds (fst (netlink_response_available (polling_kernel POLLIN)
                            (registered_conn\<lparr>crefs := 0\<rparr>))) 3) = POLLIN"
  by (simp add: netlink_close_def netlink_response_available_def
      nxsem_post_def registered_conn_def zeroed_conn_def polling_kernel_def Let_def)

lemma poll_teardown_clears_registration:
  "netlink_poll nsetup nteardown k conn fds False =
     (nteardown, k, conn\<lparr>pollsem := None, pollevent := None\<rparr>)"
  by (simp add: netlink_poll_def)

subsection \<open>Poll\<close>

lemma pollout_not_requested: "ev AND POLLOUT = 0 \<Longrightarrow> POLLOUT AND ev = 0"
  by (simp add: and.commute)

text \<open>
  Claim C3, as amended. When poll setup requests readability and does not request
  writability, no response is queued, and a registration (semaphore or event-flags
  pointer) is already outstanding on the connection, \<open>netlink_poll\<close> fails with EBUSY
  and leaves the connection, with its registration, and the pollfd as they were. The
  claim as stated leaves out the condition on writability: POLLOUT is always reported
  when it is requested, so a poll that asks for both events returns success with POLLOUT
  before the registration is looked at; the last theorem of this subsection runs such a
  poll.
\<close>

theorem poll_second_registration_busy:
  assumes "events (pollfds k fds) AND POLLIN \<noteq> 0"
    and "events (pollfds k fds) AND POLLOUT = 0"
    and "resplist conn = []"
    and "pollsem conn \<noteq> None \<or> pollevent conn \<noteq> None"
  shows "netlink_poll nsetup nteardown k conn fds True = (Inl EBUSY, k, conn)"
proof -
  from assms(2) have "POLLOUT AND events (pollfds k fds) = 0"
    by (rule pollout_not_requested)
  with assms(1,3,4) show ?thesis
    by (simp add: netlink_poll_def netlink_check_response_def Let_def)
qed

theorem poll_second_registration_busy_witness:
  "events (pollfds (polling_kernel POLLIN) 5) AND POLLIN \<noteq> 0 \<and>
   events (pollfds (polling_kernel POLLIN) 5) AND POLLOUT = 0 \<and>
   resplist registered_conn = [] \<and>
   pollsem registered_conn \<noteq> None \<and>
   netlink_poll (Inr 1) (Inr 0) (polling_kernel POLLIN) registered_conn 5 True =
     (Inl EBUSY, polling_kernel POLLIN, registered_conn)"
proof -
  have a: "events (pollfds (polling_kernel POLLIN) 5) AND POLLIN \<noteq> 0"
    by (simp add: polling_kernel_def POLLIN_def)
  have b: "events (pollfds (polling_kernel POLLIN) 5) AND POLLOUT = 0"
    by (simp add: polling_kernel_def POLLIN_def POLLOUT_def)
  have c: "resplist registered_conn = []"
    by (simp add: registered_conn_def zeroed_conn_def)
  have d: "pollsem registered_conn \<noteq> None \<or> pollevent registered_conn \<noteq> None"
    by (simp add: registered_conn_def)
  have e: "pollsem registered_conn \<noteq> None"
    by (simp add: registered_conn_def)
  from poll_second_registration_busy [OF a b c d, of "Inr 1" "Inr 0"] a b c e
  show ?thesis by simp
qed

theorem poll_busy_counterexample:
  "events (pollfds (polling_kernel (POLLIN OR POLLOUT)) 5) AND POLLIN \<noteq> 0 \<and>
   resplist registered_conn = [] \<and>
   pollsem registered_conn \<noteq> None \<and>
   pollevent registered_conn \<noteq> None \<and>
   fst (netlink_poll (Inr 1) (Inr 0) (polling_kernel (POLLIN OR POLLOUT)) registered_conn 5
          True) = Inr 0 \<and>
   fst (netlink_poll (Inr 1) (Inr 0) (polling_kernel (POLLIN OR POLLOUT)) registered_conn 5
          True) \<noteq> Inl EBUSY \<and>
   revents (pollfds (fst (snd (netlink_poll (Inr 1) (Inr 0)
       (polling_kernel (POLLIN OR POLLOUT)) registered_conn 5 True))) 5) = POLLOUT \<and>
   posted (fst (snd (netlink_poll (Inr 1) (Inr 0)
       (polling_kernel (POLLIN OR POLLOUT)) registered_conn 5 True))) = [105]"
  by (simp add: netlink_poll_def netlink_check_response_def nxsem_post_def
      registered_conn_def zeroed_conn_def polling_kernel_def POLLIN_def POLLOUT_def Let_def)

subsection \<open>Receive\<close>

text \<open>
  Claim C4. With a response at the head of the queue, \<open>netlink_recvfrom\<close> on a buffer
  of length \<open>len\<close> returns \<open>min len n\<close>, where \<open>n\<close> is the response's declared length;
  the buffer then starts with the first \<open>min len n\<close> bytes of the message and keeps what
  it held beyond them; the response has left the queue, which holds the responses
  that were behind it, so it is not delivered again; and the source address, when the
  caller passed one to fill, is the netlink address made of the connection's peer
  (\<open>dst_pid\<close>, \<open>dst_groups\<close>) fields.
\<close>

theorem recv_truncation:
  assumes "resplist conn = entry # rest"
  shows "netlink_recvfrom get_response cfg sflags conn buf flags from =
           (Inr (min (length buf) (unat (msg_len entry)),
                 map (msg_mem entry) [0..<min (length buf) (unat (msg_len entry))] @
                   drop (min (length buf) (unat (msg_len entry))) buf,
                 if from
                 then Some \<lparr>nl_family = AF_NETLINK, nl_pad = 0, nl_pid = dst_pid conn,
                            nl_groups = dst_groups conn\<rparr>
                 else None),
            conn\<lparr>resplist := rest\<rparr>)"
  using assms
  by (simp add: netlink_recvfrom_def netlink_tryget_response_def netlink_getpeername_def
      memcpy_def Let_def min_def)

theorem recv_truncation_witness:
  "resplist (zeroed_conn\<lparr>dst_pid := 9, resplist := [counting_response 20]\<rparr>) =
     counting_response 20 # [] \<and>
   netlink_recvfrom (\<lambda>c. (None, c)) debug_build 0
       (zeroed_conn\<lparr>dst_pid := 9, resplist := [counting_response 20]\<rparr>)
       [255, 255, 255] 0 True =
     (Inr (3, [0, 1, 2],
           Some \<lparr>nl_family = AF_NETLINK, nl_pad = 0, nl_pid = 9, nl_groups = 0\<rparr>),
      zeroed_conn\<lparr>dst_pid := 9, resplist := []\<rparr>)"
proof -
  have a: "resplist (zeroed_conn\<lparr>dst_pid := 9, resplist := [counting_response 20]\<rparr>) =
     counting_response 20 # []"
    by simp
  have b: "min (Suc (Suc (Suc 0))) (unat (msg_len (counting_response 20))) = 3"
    by (simp add: counting_response_def)
  have c: "map (msg_mem (counting_response 20)) [0..<3] = [0, 1, 2]"
    by (simp add: counting_response_def upt_rec)
  from recv_truncation [OF a, of "\<lambda>c. (None, c)" debug_build 0 "[255, 255, 255]" 0 True]
  show ?thesis
    by (simp add: b c zeroed_conn_def)
qed

text \<open>
  Claim C5. On a connection whose response queue is empty, \<open>netlink_recvfrom\<close> called
  with the handle's non-blocking flag set, or with MSG_DONTWAIT among the call's
  flags, returns EAGAIN and leaves the connection as it was.
\<close>

theorem recv_nonblocking_empty:
  assumes "resplist conn = []"
    and "SS_ISNONBLOCK sflags \<or> flags AND MSG_DONTWAIT \<noteq> 0"
  shows "netlink_recvfrom get_response cfg sflags conn buf flags from = (Inl EAGAIN, conn)"
  using assms
  by (auto simp add: netlink_recvfrom_def netlink_tryget_response_def Let_def)

theorem recv_nonblocking_empty_witness:
  "resplist zeroed_conn = [] \<and> SS_ISNONBLOCK SF_NONBLOCK \<and>
   netlink_recvfrom (\<lambda>c. (None, c)) debug_build SF_NONBLOCK zeroed_conn [0, 0] 0 False =
     (Inl EAGAIN, zeroed_conn) \<and>
   (0 :: 8 word) AND SF_NONBLOCK = 0 \<and> MSG_DONTWAIT AND MSG_DONTWAIT \<noteq> 0 \<and>
   netlink_recvfrom (\<lambda>c. (None, c)) debug_build 0 zeroed_conn [0, 0] MSG_DONTWAIT False =
     (Inl EAGAIN, zeroed_conn)"
proof -
  have a: "resplist zeroed_conn = []"
    by (simp add: zeroed_conn_def)
  have b: "SS_ISNONBLOCK SF_NONBLOCK"
    by (simp add: SS_ISNONBLOCK_def SF_NONBLOCK_def)
  have c: "MSG_DONTWAIT AND MSG_DONTWAIT \<noteq> 0"
    by (simp add: MSG_DONTWAIT_def)
  have b': "SS_ISNONBLOCK SF_NONBLOCK \<or> (0 :: 32 word) AND MSG_DONTWAIT \<noteq> 0"
    using b by simp
  have c': "SS_ISNONBLOCK 0 \<or> MSG_DONTWAIT AND MSG_DONTWAIT \<noteq> 0"
    using c by simp
  from recv_nonblocking_empty [OF a b', of "\<lambda>c. (None, c)" debug_build "[0, 0]" False]
    recv_nonblocking_empty [OF a c', of "\<lambda>c. (None, c)" debug_build "[0, 0]" False]
    a b c
  show ?thesis by simp
qed

subsection \<open>Bind and the local address\<close>

text \<open>
  Claim C6. For every address \<open>nladdr\<close>, binding a connection to it and then reading
  the local address with \<open>netlink_getsockname\<close> gives back the port id and the groups
  of \<open>nladdr\<close>, except that a port id of 0 comes back as the calling process's own
  identifier; the address returned has the netlink family tag and zero padding.
\<close>

theorem bind_getsockname_roundtrip:
  "\<exists>conn'. netlink_bind getpid conn nladdr = Inr conn' \<and>
     netlink_getsockname conn' =
       Inr \<lparr>nl_family = AF_NETLINK, nl_pad = 0,
            nl_pid = (if nl_pid nladdr = 0 then getpid else nl_pid nladdr),
            nl_groups = nl_groups nladdr\<rparr>"
  by (simp add: netlink_bind_def netlink_getsockname_def)

theorem bind_getsockname_roundtrip_witness:
  "(\<exists>conn'.
      netlink_bind 42 zeroed_conn
        \<lparr>nl_family = AF_NETLINK, nl_pad = 0, nl_pid = 0, nl_groups = 6\<rparr> = Inr conn' \<and>
      netlink_getsockname conn' =
        Inr \<lparr>nl_family = AF_NETLINK, nl_pad = 0, nl_pid = 42, nl_groups = 6\<rparr>) \<and>
   (\<exists>conn'.
      netlink_bind 42 zeroed_conn
        \<lparr>nl_family = AF_NETLINK, nl_pad = 0, nl_pid = 7, nl_groups = 6\<rparr> = Inr conn' \<and>
      netlink_getsockname conn' =
        Inr \<lparr>nl_family = AF_NETLINK, nl_pad = 0, nl_pid = 7, nl_groups = 6\<rparr>)"
  using
    bind_getsockname_roundtrip [of 42 zeroed_conn
      "\<lparr>nl_family = AF_NETLINK, nl_pad = 0, nl_pid = 0, nl_groups = 6\<rparr>"]
    bind_getsockname_roundtrip [of 42 zeroed_conn
      "\<lparr>nl_family = AF_NETLINK, nl_pad = 0, nl_pid = 7, nl_groups = 6\<rparr>"]
  by simp

subsection \<open>Setup\<close>

text \<open>
  Claim C7, as amended. Take a protocol value that passes the function's opening
  assertion: any value in a build without debug assertions, a value from 0 to 255 in a
  build with them. If it is not a supported backend, \<open>netlink_setup\<close> fails with
  EPROTONOSUPPORT; if the socket is not of the netlink domain with the raw or the
  datagram kind, it fails with EPROTONOSUPPORT as well. A failure returns no socket, so
  no connection has been attached. With the routing protocol and such a socket, it
  fails with ENOMEM when no connection can be allocated and otherwise succeeds, and
  whenever it succeeds the socket returned has a connection attached whose protocol
  field is the protocol requested and whose reference count is 1. The claim as stated
  ("for every protocol value") fails in a build with debug assertions: a value
  outside 0..255 stops at the assertion instead of returning EPROTONOSUPPORT, as the
  last theorem of this subsection shows.
\<close>

theorem setup_validation:
  assumes "DEBUGASSERT cfg (0 \<le> proto \<and> proto \<le> UINT8_MAX)"
  shows "(\<not> (CONFIG_NETLINK_ROUTE cfg \<and> proto = NETLINK_ROUTE) \<longrightarrow>
            netlink_setup cfg alloc psock proto = Inl EPROTONOSUPPORT) \<and>
         (\<not> (s_domain psock = PF_NETLINK \<and>
              (s_type psock = SOCK_RAW \<or> s_type psock = SOCK_DGRAM)) \<longrightarrow>
            netlink_setup cfg alloc psock proto = Inl EPROTONOSUPPORT) \<and>
         (CONFIG_NETLINK_ROUTE cfg \<and> proto = NETLINK_ROUTE \<and> s_domain psock = PF_NETLINK \<and>
          (s_type psock = SOCK_RAW \<or> s_type psock = SOCK_DGRAM) \<longrightarrow>
            netlink_setup cfg alloc psock proto =
              (case alloc of
                 None \<Rightarrow> Inl ENOMEM
               | Some conn \<Rightarrow>
                   Inr (psock\<lparr>s_conn :=
                     Some (conn\<lparr>protocol := word_of_int proto, crefs := 1\<rparr>)\<rparr>))) \<and>
         (\<forall>psock'. netlink_setup cfg alloc psock proto = Inr psock' \<longrightarrow>
            (\<exists>conn. s_conn psock' = Some conn \<and> uint (protocol conn) = proto \<and>
               crefs conn = 1))"
proof (intro conjI impI allI)
  assume "\<not> (CONFIG_NETLINK_ROUTE cfg \<and> proto = NETLINK_ROUTE)"
  with assms show "netlink_setup cfg alloc psock proto = Inl EPROTONOSUPPORT"
    by (simp add: netlink_setup_def Let_def)
next
  assume "\<not> (s_domain psock = PF_NETLINK \<and>
              (s_type psock = SOCK_RAW \<or> s_type psock = SOCK_DGRAM))"
  with assms show "netlink_setup cfg alloc psock proto = Inl EPROTONOSUPPORT"
    by (auto simp add: netlink_setup_def Let_def)
next
  assume "CONFIG_NETLINK_ROUTE cfg \<and> proto = NETLINK_ROUTE \<and> s_domain psock = PF_NETLINK \<and>
          (s_type psock = SOCK_RAW \<or> s_type psock = SOCK_DGRAM)"
  with assms show "netlink_setup cfg alloc psock proto =
              (case alloc of
                 None \<Rightarrow> Inl ENOMEM
               | Some conn \<Rightarrow>
                   Inr (psock\<lparr>s_conn :=
                     Some (conn\<lparr>protocol := word_of_int proto, crefs := 1\<rparr>)\<rparr>))"
    by (auto simp add: netlink_setup_def Let_def)
next
  fix psock'
  assume "netlink_setup cfg alloc psock proto = Inr psock'"
  then obtain conn where "alloc = Some conn"
    and "psock' = psock\<lparr>s_conn := Some (conn\<lparr>protocol := word_of_int proto, crefs := 1\<rparr>)\<rparr>"
    and "proto = NETLINK_ROUTE"
    using netlink_setup_Inr by blast
  then show "\<exists>conn. s_conn psock' = Some conn \<and> uint (protocol conn) = proto \<and>
      crefs conn = 1"
    by (simp add: NETLINK_ROUTE_def)
qed

theorem setup_validation_witness:
  "DEBUGASSERT debug_build (0 \<le> (17::int) \<and> 17 \<le> UINT8_MAX) \<and>
   netlink_setup debug_build (Some zeroed_conn) dgram_socket 17 = Inl EPROTONOSUPPORT \<and>
   DEBUGASSERT debug_build (0 \<le> NETLINK_ROUTE \<and> NETLINK_ROUTE \<le> UINT8_MAX) \<and>
   netlink_setup debug_build (Some zeroed_conn) (dgram_socket\<lparr>s_type := 1\<rparr>) NETLINK_ROUTE =
     Inl EPROTONOSUPPORT \<and>
   netlink_setup debug_build (Some zeroed_conn) dgram_socket NETLINK_ROUTE =
     Inr (dgram_socket\<lparr>s_conn := Some (zeroed_conn\<lparr>crefs := 1\<rparr>)\<rparr>) \<and>
   (\<exists>conn. s_conn (dgram_socket\<lparr>s_conn := Some (zeroed_conn\<lparr>crefs := 1\<rparr>)\<rparr>) = Some conn \<and>
      uint (protocol conn) = NETLINK_ROUTE \<and> crefs conn = 1)"
proof -
  have a: "DEBUGASSERT debug_build (0 \<le> (17::int) \<and> 17 \<le> UINT8_MAX)"
    by (simp add: DEBUGASSERT_def UINT8_MAX_def)
  have b: "DEBUGASSERT debug_build (0 \<le> NETLINK_ROUTE \<and> NETLINK_ROUTE \<le> UINT8_MAX)"
    by (simp add: DEBUGASSERT_def UINT8_MAX_def NETLINK_ROUTE_def)
  have c: "\<not> (CONFIG_NETLINK_ROUTE debug_build \<and> (17::int) = NETLINK_ROUTE)"
    by (simp add: NETLINK_ROUTE_def)
  have d: "\<not> (s_domain (dgram_socket\<lparr>s_type := 1\<rparr>) = PF_NETLINK \<and>
      (s_type (dgram_socket\<lparr>s_type := 1\<rparr>) = SOCK_RAW \<or>
       s_type (dgram_socket\<lparr>s_type := 1\<rparr>) = SOCK_DGRAM))"
    by (simp add: SOCK_RAW_def SOCK_DGRAM_def)
  have e: "netlink_setup debug_build (Some zeroed_conn) dgram_socket NETLINK_ROUTE =
     Inr (dgram_socket\<lparr>s_conn := Some (zeroed_conn\<lparr>crefs := 1\<rparr>)\<rparr>)"
    by (simp add: netlink_setup_def debug_build_def zeroed_conn_def dgram_socket_def
        DEBUGASSERT_def NETLINK_ROUTE_def UINT8_MAX_def Let_def)
  from setup_validation [OF a, of "Some zeroed_conn" dgram_socket] c
  have f: "netlink_setup debug_build (Some zeroed_conn) dgram_socket 17 = Inl EPROTONOSUPPORT"
    by blast
  from setup_validation [OF b, of "Some zeroed_conn" "dgram_socket\<lparr>s_type := 1\<rparr>"] d
  have g: "netlink_setup debug_build (Some zeroed_conn) (dgram_socket\<lparr>s_type := 1\<rparr>)
      NETLINK_ROUTE = Inl EPROTONOSUPPORT"
    by blast
  from setup_validation [OF b, of "Some zeroed_conn" dgram_socket] e
  have h: "\<exists>conn. s_conn (dgram_socket\<lparr>s_conn := Some (zeroed_conn\<lparr>crefs := 1\<rparr>)\<rparr>) = Some conn \<and>
      uint (protocol conn) = NETLINK_ROUTE \<and> crefs conn = 1"
    by blast
  from a b e f g h show ?thesis by blast
qed

theorem setup_out_of_range_counterexample:
  "(256::int) \<noteq> NETLINK_ROUTE \<and>
   netlink_setup debug_build (Some zeroed_conn) dgram_socket 256 = Inl PANIC \<and>
   netlink_setup debug_build (Some zeroed_conn) dgram_socket 256 \<noteq> Inl EPROTONOSUPPORT \<and>
   (- 1::int) \<noteq> NETLINK_ROUTE \<and>
   netlink_setup debug_build (Some zeroed_conn) dgram_socket (- 1) = Inl PANIC \<and>
   netlink_setup debug_build (Some zeroed_conn) dgram_socket (- 1) \<noteq> Inl EPROTONOSUPPORT"
  by (simp add: netlink_setup_def debug_build_def DEBUGASSERT_def NETLINK_ROUTE_def
      UINT8_MAX_def Let_def)

subsection \<open>Send\<close>

text \<open>
  Claim C8. Take a message whose header passes the assertion on its length (every
  message in a build without debug assertions). On a connection whose stored protocol
  is not the routing protocol, \<open>netlink_sendto\<close> fails with EOPNOTSUPP and leaves the
  connection as it was. On a connection of the routing protocol, with the routing
  backend configured, it is the routing backend called with the connection, the
  message, the length, the flags and the destination address. \<open>netlink_send\<close> is
  \<open>netlink_sendto\<close> with the destination made from the connection's peer identifiers
  (\<open>dst_pid\<close>, \<open>dst_groups\<close>), the netlink family tag and zero padding.
\<close>

theorem send_dispatch:
  assumes "DEBUGASSERT cfg (sizeof_nlmsghdr \<le> unat (nlmsg_len nlmsg))"
  shows "(uint (protocol conn) \<noteq> NETLINK_ROUTE \<longrightarrow>
            netlink_sendto route_sendto cfg conn nlmsg len flags to =
              (Inl EOPNOTSUPP, conn)) \<and>
         (CONFIG_NETLINK_ROUTE cfg \<and> uint (protocol conn) = NETLINK_ROUTE \<longrightarrow>
            netlink_sendto route_sendto cfg conn nlmsg len flags to =
              route_sendto conn nlmsg len flags to) \<and>
         netlink_send route_sendto cfg conn nlmsg len flags =
           netlink_sendto route_sendto cfg conn nlmsg len flags
             \<lparr>nl_family = AF_NETLINK, nl_pad = 0, nl_pid = dst_pid conn,
              nl_groups = dst_groups conn\<rparr>"
  using assms by (simp add: netlink_sendto_def netlink_send_def)

theorem send_dispatch_witness:
  "DEBUGASSERT debug_build
     (sizeof_nlmsghdr \<le> unat (nlmsg_len \<lparr>nlmsg_len = 16, nlmsg_body = []\<rparr>)) \<and>
   netlink_sendto echo_backend debug_build (zeroed_conn\<lparr>protocol := 4\<rparr>)
       \<lparr>nlmsg_len = 16, nlmsg_body = []\<rparr> 16 0
       \<lparr>nl_family = AF_NETLINK, nl_pad = 0, nl_pid = 8, nl_groups = 0\<rparr> =
     (Inl EOPNOTSUPP, zeroed_conn\<lparr>protocol := 4\<rparr>) \<and>
   netlink_sendto echo_backend debug_build zeroed_conn
       \<lparr>nlmsg_len = 16, nlmsg_body = []\<rparr> 16 0
       \<lparr>nl_family = AF_NETLINK, nl_pad = 0, nl_pid = 8, nl_groups = 0\<rparr> =
     (Inr 16, zeroed_conn\<lparr>pid := 8\<rparr>) \<and>
   netlink_send echo_backend debug_build (zeroed_conn\<lparr>dst_pid := 5\<rparr>)
       \<lparr>nlmsg_len = 16, nlmsg_body = []\<rparr> 16 0 =
     (Inr 16, zeroed_conn\<lparr>dst_pid := 5, pid := 5\<rparr>)"
proof -
  have a: "DEBUGASSERT debug_build
     (sizeof_nlmsghdr \<le> unat (nlmsg_len \<lparr>nlmsg_len = 16, nlmsg_body = []\<rparr>))"
    by (simp add: DEBUGASSERT_def sizeof_nlmsghdr_def)
  have b: "uint (protocol (zeroed_conn\<lparr>protocol := 4\<rparr>)) \<noteq> NETLINK_ROUTE"
    by (simp add: NETLINK_ROUTE_def)
  have c: "CONFIG_NETLINK_ROUTE debug_build \<and> uint (protocol zeroed_conn) = NETLINK_ROUTE"
    by (simp add: NETLINK_ROUTE_def debug_build_def zeroed_conn_def)
  have d: "CONFIG_NETLINK_ROUTE debug_build \<and>
      uint (protocol (zeroed_conn\<lparr>dst_pid := 5\<rparr>)) = NETLINK_ROUTE"
    by (simp add: NETLINK_ROUTE_def debug_build_def zeroed_conn_def)
  from send_dispatch [OF a, of "zeroed_conn\<lparr>protocol := 4\<rparr>" echo_backend 16 0
      "\<lparr>nl_family = AF_NETLINK, nl_pad = 0, nl_pid = 8, nl_groups = 0\<rparr>"] b
  have e: "netlink_sendto echo_backend debug_build (zeroed_conn\<lparr>protocol := 4\<rparr>)
       \<lparr>nlmsg_len = 16, nlmsg_body = []\<rparr> 16 0
       \<lparr>nl_family = AF_NETLINK, nl_pad = 0, nl_pid = 8, nl_groups = 0\<rparr> =
     (Inl EOPNOTSUPP, zeroed_conn\<lparr>protocol := 4\<rparr>)"
    by blast
  from send_dispatch [OF a, of zeroed_conn echo_backend 16 0
      "\<lparr>nl_family = AF_NETLINK, nl_pad = 0, nl_pid = 8, nl_groups = 0\<rparr>"] c
  have f: "netlink_sendto echo_backend debug_build zeroed_conn
       \<lparr>nlmsg_len = 16, nlmsg_body = []\<rparr> 16 0
       \<lparr>nl_family = AF_NETLINK, nl_pad = 0, nl_pid = 8, nl_groups = 0\<rparr> =
     (Inr 16, zeroed_conn\<lparr>pid := 8\<rparr>)"
    by (simp add: echo_backend_def)
  from send_dispatch [OF a, of "zeroed_conn\<lparr>dst_pid := 5\<rparr>" echo_backend 16 0
      "\<lparr>nl_family = AF_NETLINK, nl_pad = 0, nl_pid = 5, nl_groups = 0\<rparr>"] d
  have g: "netlink_send echo_backend debug_build (zeroed_conn\<lparr>dst_pid := 5\<rparr>)
       \<lparr>nlmsg_len = 16, nlmsg_body = []\<rparr> 16 0 =
     (Inr 16, zeroed_conn\<lparr>dst_pid := 5, pid := 5\<rparr>)"
    by (simp add: echo_backend_def zeroed_conn_def)
  from a e f g show ?thesis by blast
qed

subsection \<open>The delivery callback\<close>

text \<open>
  Claim C9. When \<open>netlink_response_available\<close> runs with a registration outstanding
  (both \<open>pollsem\<close> and \<open>pollevent\<close> set), it sets the POLLIN bit in the registered
  event flags, leaving the other bits, the other fields and the other pollfds alone,
  posts the registered semaphore once, and clears both pointers. When it runs with no
  registration outstanding it changes nothing outside the connection and clears the
  pointers, which changes nothing when both were null already. It always returns, and
  both pointers are null afterwards.
\<close>

theorem response_available_single_shot:
  "(\<forall>s e. pollsem conn = Some s \<and> pollevent conn = Some e \<longrightarrow>
      (\<exists>k'. netlink_response_available k conn =
               (k', conn\<lparr>pollsem := None, pollevent := None\<rparr>) \<and>
         revents (pollfds k' e) = revents (pollfds k e) OR POLLIN \<and>
         revents (pollfds k' e) AND POLLIN = POLLIN \<and>
         events (pollfds k' e) = events (pollfds k e) \<and>
         sem (pollfds k' e) = sem (pollfds k e) \<and>
         (\<forall>a. a \<noteq> e \<longrightarrow> pollfds k' a = pollfds k a) \<and>
         posted k' = posted k @ [s])) \<and>
   (pollsem conn = None \<or> pollevent conn = None \<longrightarrow>
      netlink_response_available k conn = (k, conn\<lparr>pollsem := None, pollevent := None\<rparr>)) \<and>
   (pollsem conn = None \<and> pollevent conn = None \<longrightarrow>
      netlink_response_available k conn = (k, conn)) \<and>
   pollsem (snd (netlink_response_available k conn)) = None \<and>
   pollevent (snd (netlink_response_available k conn)) = None"
proof (intro conjI impI allI)
  fix s e
  assume "pollsem conn = Some s \<and> pollevent conn = Some e"
  then show "\<exists>k'. netlink_response_available k conn =
               (k', conn\<lparr>pollsem := None, pollevent := None\<rparr>) \<and>
         revents (pollfds k' e) = revents (pollfds k e) OR POLLIN \<and>
         revents (pollfds k' e) AND POLLIN = POLLIN \<and>
         events (pollfds k' e) = events (pollfds k e) \<and>
         sem (pollfds k' e) = sem (pollfds k e) \<and>
         (\<forall>a. a \<noteq> e \<longrightarrow> pollfds k' a = pollfds k a) \<and>
         posted k' = posted k @ [s]"
    by (simp add: netlink_response_available_def nxsem_post_def Let_def
        bit.conj_disj_distrib2)
next
  assume "pollsem conn = None \<or> pollevent conn = None"
  then show "netlink_response_available k conn =
      (k, conn\<lparr>pollsem := None, pollevent := None\<rparr>)"
    by (auto simp: netlink_response_available_def Let_def split: option.splits)
next
  assume "pollsem conn = None \<and> pollevent conn = None"
  then show "netlink_response_available k conn = (k, conn)"
    by (simp add: netlink_response_available_def Let_def)
next
  show "pollsem (snd (netlink_response_available k conn)) = None"
    by (simp add: netlink_response_available_def Let_def)
next
  show "pollevent (snd (netlink_response_available k conn)) = None"
    by (simp add: netlink_response_available_def Let_def)
qed

theorem response_available_single_shot_witness:
  "pollsem registered_conn = Some 103 \<and> pollevent registered_conn = Some 3 \<and>
   (\<exists>k'. netlink_response_available (polling_kernel POLLIN) registered_conn =
            (k', registered_conn\<lparr>pollsem := None, pollevent := None\<rparr>) \<and>
      revents (pollfds k' 3) = POLLIN \<and> posted k' = [103]) \<and>
   pollsem zeroed_conn = None \<and> pollevent zeroed_conn = None \<and>
   netlink_response_available (polling_kernel POLLIN) zeroed_conn =
     (polling_kernel POLLIN, zeroed_conn)"
proof -
  have a: "pollsem registered_conn = Some 103 \<and> pollevent registered_conn = Some 3"
    by (simp add: registered_conn_def)
  have b: "pollsem zeroed_conn = None \<and> pollevent zeroed_conn = None"
    by (simp add: zeroed_conn_def)
  have c: "revents (pollfds (polling_kernel POLLIN) 3) = 0" "posted (polling_kernel POLLIN) = []"
    by (simp_all add: polling_kernel_def)
  from response_available_single_shot [of registered_conn "polling_kernel POLLIN"] a
  obtain k' where "netlink_response_available (polling_kernel POLLIN) registered_conn =
            (k', registered_conn\<lparr>pollsem := None, pollevent := None\<rparr>)"
    and "revents (pollfds k' 3) = revents (pollfds (polling_kernel POLLIN) 3) OR POLLIN"
    and "posted k' = posted (polling_kernel POLLIN) @ [103]"
    by blast
  with c have d: "\<exists>k'. netlink_response_available (polling_kernel POLLIN) registered_conn =
            (k', registered_conn\<lparr>pollsem := None, pollevent := None\<rparr>) \<and>
      revents (pollfds k' 3) = POLLIN \<and> posted k' = [103]"
    by simp
  from response_available_single_shot [of zeroed_conn "polling_kernel POLLIN"] b
  have e: "netlink_response_available (polling_kernel POLLIN) zeroed_conn =
     (polling_kernel POLLIN, zeroed_conn)"
    by blast
  from a b d e show ?thesis by blast
qed

subsection \<open>What bind leaves alone\<close>

text \<open>
  Claim C10. For every connection and every address, \<open>netlink_bind\<close> returns success
  and changes the local identifier fields \<open>pid\<close> and \<open>groups\<close> only: the protocol, the
  peer identifiers \<open>dst_pid\<close> and \<open>dst_groups\<close>, the reference count, the response
  queue and the poll registration are as before.
\<close>

theorem bind_frame:
  "\<exists>conn'. netlink_bind getpid conn nladdr = Inr conn' \<and>
     conn' = conn\<lparr>pid := pid conn', groups := groups conn'\<rparr> \<and>
     protocol conn' = protocol conn \<and> dst_pid conn' = dst_pid conn \<and>
     dst_groups conn' = dst_groups conn \<and> crefs conn' = crefs conn \<and>
     resplist conn' = resplist conn \<and> pollsem conn' = pollsem conn \<and>
     pollevent conn' = pollevent conn"
  by (simp add: netlink_bind_def)

theorem bind_frame_witness:
  "netlink_bind 42 registered_conn
      \<lparr>nl_family = AF_NETLINK, nl_pad = 0, nl_pid = 7, nl_groups = 6\<rparr> =
     Inr (registered_conn\<lparr>pid := 7, groups := 6\<rparr>) \<and>
   (\<exists>conn'. netlink_bind 42 registered_conn
      \<lparr>nl_family = AF_NETLINK, nl_pad = 0, nl_pid = 7, nl_groups = 6\<rparr> = Inr conn' \<and>
     crefs conn' = 1 \<and> pollsem conn' = Some 103 \<and> pollevent conn' = Some 3 \<and>
     resplist conn' = [])"
  using bind_frame [of 42 registered_conn
      "\<lparr>nl_family = AF_NETLINK, nl_pad = 0, nl_pid = 7, nl_groups = 6\<rparr>"]
  by (simp add: netlink_bind_def registered_conn_def zeroed_conn_def)

end
